theory Spec2Isabelle
  imports Complex_Main
begin

section \<open>Data model\<close>

text \<open>
  The documents of the three collections the controllers touch, as the mongoose
  schemas declare them (models/projectModel.ts, models/attendanceModel.ts,
  models/userModel.js). An ObjectId is an opaque key, modelled as a natural number.
  A JavaScript number is modelled as the real number it denotes (infinities and NaN
  are left out); where the rounding of double arithmetic matters it is written out
  with \<open>roundDouble\<close> below. A Date is its millisecond timestamp. A collection keyed by \<open>_id\<close> is a map from
  ObjectId to document; the attendance collection is only ever filtered, so it is a list.
\<close>

type_synonym objectId = nat

text \<open>The \<open>status\<close> enum of \<open>IProject\<close> (projectModel.ts, lines 11-28 and 75-93).\<close>

datatype status =
    draft
  | estimation_prepared
  | quotation_sent
  | quotation_approved
  | quotation_rejected
  | lpo_received
  | team_assigned
  | work_started
  | in_progress
  | work_completed
  | quality_check
  | client_handover
  | final_invoice_sent
  | payment_received
  | on_hold
  | cancelled
  | project_closed

text \<open>The string a status is in the source; template literals print it.\<close>

fun statusName :: "status \<Rightarrow> string" where
  "statusName draft = ''draft''"
| "statusName estimation_prepared = ''estimation_prepared''"
| "statusName quotation_sent = ''quotation_sent''"
| "statusName quotation_approved = ''quotation_approved''"
| "statusName quotation_rejected = ''quotation_rejected''"
| "statusName lpo_received = ''lpo_received''"
| "statusName team_assigned = ''team_assigned''"
| "statusName work_started = ''work_started''"
| "statusName in_progress = ''in_progress''"
| "statusName work_completed = ''work_completed''"
| "statusName quality_check = ''quality_check''"
| "statusName client_handover = ''client_handover''"
| "statusName final_invoice_sent = ''final_invoice_sent''"
| "statusName payment_received = ''payment_received''"
| "statusName on_hold = ''on_hold''"
| "statusName cancelled = ''cancelled''"
| "statusName project_closed = ''project_closed''"

text \<open>The \<open>role\<close> enum of the user schema (userModel.js, line 38).\<close>

datatype role = SuperAdmin | Admin | Engineer | Finance | Driver | Worker

record IUser =
  firstName :: string
  lastName :: string
  profileImage :: "string option"
  role :: role
  salary :: "real option"

record IProject =
  projectName :: string
  projectNumber :: string
  client :: objectId
  status :: status
  progress :: real
  createdBy :: objectId
  updatedBy :: "objectId option"
  assignedTo :: "objectId option"
  assignedWorkers :: "objectId list"
  assignedDriver :: "objectId option"

datatype attendanceType = ProjectAttendance | NormalAttendance

record IAttendance =
  project :: "objectId option"
  user :: objectId
  date :: int
  present :: bool
  markedBy :: objectId
  attType :: attendanceType

record database =
  projects :: "objectId \<rightharpoonup> IProject"
  users :: "objectId \<rightharpoonup> IUser"
  attendances :: "IAttendance list"

text \<open>
  \<open>new ApiError(statusCode, message)\<close> is what every handler throws, and
  \<open>new ApiResponse(statusCode, data, message)\<close> what it sends; \<open>data\<close> is a project
  document or \<open>null\<close> in the handlers modelled here. A handler maps the database to the
  database it leaves behind and to the error thrown or the response sent.
\<close>

datatype ApiError = ApiError int string

datatype ApiResponse = ApiResponse int "IProject option" string

type_synonym outcome = "database \<times> (ApiError + ApiResponse)"

section \<open>Project status state machine (controllers/projectController)\<close>

text \<open>
  A JavaScript object literal, as the list of its \<open>key: value\<close> entries in the order
  written. Reading a property gives the value of the last entry with that key (a later
  duplicate key overrides an earlier one) and \<open>undefined\<close> when no entry has the key.
\<close>

definition objGet :: "('k \<times> 'v) list \<Rightarrow> 'k \<Rightarrow> 'v option" where
  "objGet kvs k = map_of (rev kvs) k"

text \<open>\<open>validStatusTransitions\<close> of src/controllers/projectController.ts, lines 21-43.\<close>

definition validStatusTransitions :: "(status \<times> status list) list" where
  "validStatusTransitions =
    [(draft, [estimation_prepared]),
     (estimation_prepared, [quotation_sent, on_hold, cancelled]),
     (quotation_sent, [quotation_approved, quotation_rejected, on_hold, cancelled]),
     (quotation_approved, [lpo_received, on_hold, cancelled]),
     (lpo_received, [work_started, on_hold, cancelled]),
     (work_started, [in_progress, on_hold, cancelled]),
     (in_progress, [work_completed, on_hold, cancelled]),
     (work_completed, [quality_check, on_hold]),
     (quality_check, [client_handover, work_completed]),
     (client_handover, [final_invoice_sent, on_hold]),
     (final_invoice_sent, [payment_received, on_hold]),
     (payment_received, [project_closed]),
     (on_hold, [in_progress, work_started, cancelled]),
     (cancelled, []),
     (project_closed, []),
     (team_assigned, [work_started, on_hold])]"

text \<open>
  \<open>validStatusTransitions\<close> of the compiled dist/controllers/projectController.js,
  lines 24-48: the same literal with three more entries at the end, two of them
  repeating the keys \<open>lpo_received\<close> and \<open>work_started\<close>.
\<close>

definition validStatusTransitions_dist :: "(status \<times> status list) list" where
  "validStatusTransitions_dist =
    [(draft, [estimation_prepared]),
     (estimation_prepared, [quotation_sent, on_hold, cancelled]),
     (quotation_sent, [quotation_approved, quotation_rejected, on_hold, cancelled]),
     (quotation_approved, [lpo_received, on_hold, cancelled]),
     (lpo_received, [work_started, on_hold, cancelled]),
     (work_started, [in_progress, on_hold, cancelled]),
     (in_progress, [work_completed, on_hold, cancelled]),
     (work_completed, [quality_check, on_hold]),
     (quality_check, [client_handover, work_completed]),
     (client_handover, [final_invoice_sent, on_hold]),
     (final_invoice_sent, [payment_received, on_hold]),
     (payment_received, [project_closed]),
     (on_hold, [in_progress, work_started, cancelled]),
     (cancelled, []),
     (project_closed, []),
     (lpo_received, [team_assigned, on_hold, cancelled]),
     (team_assigned, [work_started, on_hold]),
     (work_started, [in_progress, on_hold, cancelled])]"

text \<open>
  \<open>arr?.includes(x)\<close>: \<open>undefined\<close> (falsy) when \<open>arr\<close> is \<open>undefined\<close>, else
  membership.
\<close>

definition optIncludes :: "'a list option \<Rightarrow> 'a \<Rightarrow> bool" where
  "optIncludes arr x = (case arr of None \<Rightarrow> False | Some ys \<Rightarrow> x \<in> set ys)"

text \<open>
  The entry of a transition table for a status, as the specification speaks of it:
  the list under that key, and no target at all for a status without a key.
\<close>

definition tableEntry :: "(status \<times> status list) list \<Rightarrow> status \<Rightarrow> status list" where
  "tableEntry tbl cur = (case objGet tbl cur of None \<Rightarrow> [] | Some ts \<Rightarrow> ts)"

text \<open>
  \<open>Project.findByIdAndUpdate(id, updateData, {new: true})\<close>: sets the fields of
  \<open>updateData\<close> (the function \<open>f\<close>) on the stored document and returns the updated
  document, or \<open>null\<close> when there is none.
\<close>

definition findByIdAndUpdate ::
  "objectId \<Rightarrow> (IProject \<Rightarrow> IProject) \<Rightarrow> database \<Rightarrow> database \<times> IProject option" where
  "findByIdAndUpdate i f db =
    (case projects db i of
       None \<Rightarrow> (db, None)
     | Some p \<Rightarrow> (db\<lparr>projects := (projects db)(i \<mapsto> f p)\<rparr>, Some (f p)))"

text \<open>
  \<open>updateProjectStatus\<close> (projectController.ts, lines 297-338). The module's table is
  the parameter \<open>tbl\<close>, since the TypeScript source and the compiled file differ in it
  and in nothing else of this handler. \<open>userId\<close> is \<open>req.user.userId\<close> of the
  authenticated caller, \<open>st\<close> is \<open>req.body.status\<close> (\<open>None\<close> when missing or falsy).
\<close>

definition updateProjectStatus ::
  "(status \<times> status list) list \<Rightarrow> objectId \<Rightarrow> objectId \<Rightarrow> status option \<Rightarrow> database \<Rightarrow> outcome" where
  "updateProjectStatus tbl userId i st db =
    (case st of
       None \<Rightarrow> (db, Inl (ApiError 400 ''Status is required''))
     | Some target \<Rightarrow>
        (case projects db i of
           None \<Rightarrow> (db, Inl (ApiError 404 ''Project not found''))
         | Some proj \<Rightarrow>
            if \<not> optIncludes (objGet tbl (status proj)) target
            then (db, Inl (ApiError 400
                    (''Invalid status transition from '' @ statusName (status proj)
                       @ '' to '' @ statusName target)))
            else
              let (db', updatedProject) =
                    findByIdAndUpdate i (\<lambda>p. p\<lparr>status := target, updatedBy := Some userId\<rparr>) db
              in (db', Inr (ApiResponse 200 updatedProject
                             ''Project status updated successfully''))))"

text \<open>
  \<open>updateProject\<close> (projectController.ts, lines 249-295). Of the request body only the
  two fields the handler inspects are modelled, \<open>progress\<close> and \<open>status\<close>; the handler
  adds \<open>updatedBy\<close> and writes the body to the document.
\<close>

record updateData =
  ud_progress :: "real option"
  ud_status :: "status option"

definition applyUpdateData :: "objectId \<Rightarrow> updateData \<Rightarrow> IProject \<Rightarrow> IProject" where
  "applyUpdateData userId ud p =
    p\<lparr>progress := (case ud_progress ud of None \<Rightarrow> progress p | Some q \<Rightarrow> q),
      status := (case ud_status ud of None \<Rightarrow> status p | Some s \<Rightarrow> s),
      updatedBy := Some userId\<rparr>"

definition updateProject ::
  "(status \<times> status list) list \<Rightarrow> objectId \<Rightarrow> objectId \<Rightarrow> updateData \<Rightarrow> database \<Rightarrow> outcome" where
  "updateProject tbl userId i ud db =
    (case projects db i of
       None \<Rightarrow> (db, Inl (ApiError 404 ''Project not found''))
     | Some proj \<Rightarrow>
        if (case ud_progress ud of None \<Rightarrow> False | Some q \<Rightarrow> q < 0 \<or> q > 100)
        then (db, Inl (ApiError 400 ''Progress must be between 0 and 100''))
        else
          let write =
                (let (db', updatedProject) = findByIdAndUpdate i (applyUpdateData userId ud) db
                 in (db', Inr (ApiResponse 200 updatedProject ''Project updated successfully'')))
          in (case ud_status ud of
                None \<Rightarrow> write
              | Some target \<Rightarrow>
                 if \<not> optIncludes (objGet tbl (status proj)) target
                 then (db, Inl (ApiError 400
                         (''Invalid status transition from '' @ statusName (status proj)
                            @ '' to '' @ statusName target)))
                 else write))"

text \<open>\<open>deleteProject\<close> (projectController.ts, lines 610-630).\<close>

definition deleteProject :: "objectId \<Rightarrow> database \<Rightarrow> outcome" where
  "deleteProject i db =
    (case projects db i of
       None \<Rightarrow> (db, Inl (ApiError 404 ''Project not found''))
     | Some proj \<Rightarrow>
        if status proj \<noteq> draft
        then (db, Inl (ApiError 400 ''Cannot delete project that has already started''))
        else (db\<lparr>projects := (projects db)(i := None)\<rparr>,
              Inr (ApiResponse 200 None ''Project deleted successfully'')))"

text \<open>Whether a handler sent a response rather than threw.\<close>

definition succeeded :: "outcome \<Rightarrow> bool" where
  "succeeded r = (case snd r of Inl _ \<Rightarrow> False | Inr _ \<Rightarrow> True)"

text \<open>The status stored for a project, if the project is stored.\<close>

definition storedStatus :: "database \<Rightarrow> objectId \<Rightarrow> status option" where
  "storedStatus db i = map_option status (projects db i)"

text \<open>
  \<open>updateProjectProgress\<close> (projectController.ts, lines 431-473, up to the second
  write). \<open>prog\<close> is \<open>req.body.progress\<close>, \<open>None\<close> when \<open>undefined\<close>. The handler
  changes the loaded document's status in memory, reading the progress the document
  was loaded with, saves it (\<open>project.save()\<close>), and then writes \<open>updateData\<close>. The
  loaded document is taken to pass the schema's validation on save, as every stored
  document did when it was written. The comment the handler creates afterwards and the
  e-mail it sends live outside the project collection and are not modelled.
\<close>

definition updateProjectProgress ::
  "objectId \<Rightarrow> objectId \<Rightarrow> real option \<Rightarrow> database \<Rightarrow> outcome" where
  "updateProjectProgress userId i prog db =
    (case prog of
       None \<Rightarrow> (db, Inl (ApiError 400 ''Progress must be between 0 and 100''))
     | Some newProgress \<Rightarrow>
        if newProgress < 0 \<or> newProgress > 100
        then (db, Inl (ApiError 400 ''Progress must be between 0 and 100''))
        else
          (case projects db i of
             None \<Rightarrow> (db, Inl (ApiError 404 ''Project not found''))
           | Some proj0 \<Rightarrow>
              let proj1 = (if progress proj0 \<ge> 0 \<and> status proj0 = team_assigned
                           then proj0\<lparr>status := work_started\<rparr> else proj0);
                  proj2 = (if progress proj1 > 0 \<and> status proj1 = work_started
                           then proj1\<lparr>status := in_progress\<rparr> else proj1);
                  toCompleted = (newProgress = 100 \<and> status proj2 \<noteq> work_completed);
                  db1 = db\<lparr>projects := (projects db)(i \<mapsto> proj2)\<rparr>;
                  (db2, updatedProject) =
                     findByIdAndUpdate i
                       (\<lambda>p. (if toCompleted then p\<lparr>status := work_completed\<rparr> else p)
                              \<lparr>progress := newProgress, updatedBy := Some userId\<rparr>) db1
              in (db2, Inr (ApiResponse 200 updatedProject
                             ''Project progress updated successfully''))))"

text \<open>
  \<open>assignTeamAndDriver\<close> (projectController.ts, lines 802-858). \<open>workers\<close> is
  \<open>req.body.workers\<close>, \<open>None\<close> when it is not an array; \<open>driverId\<close> is
  \<open>req.body.driverId\<close>, \<open>None\<close> when falsy. \<open>User.find\<close> with \<open>_id: {$in: workers}\<close>
  returns each matching user document once, however often its id is listed.
\<close>

definition findWorkers :: "database \<Rightarrow> objectId list \<Rightarrow> IUser list" where
  "findWorkers db ids =
    List.map_filter
      (\<lambda>w. case users db w of
              None \<Rightarrow> None
            | Some u \<Rightarrow> if role u = Worker then Some u else None)
      (remdups ids)"

definition findDriver :: "database \<Rightarrow> objectId \<Rightarrow> IUser option" where
  "findDriver db d =
    (case users db d of
       None \<Rightarrow> None
     | Some u \<Rightarrow> if role u = Driver then Some u else None)"

definition assignTeamAndDriver ::
  "objectId \<Rightarrow> objectId \<Rightarrow> objectId list option \<Rightarrow> objectId option \<Rightarrow> database \<Rightarrow> outcome" where
  "assignTeamAndDriver userId projectId workers driverId db =
    (case (workers, driverId) of
       (Some ws, Some d) \<Rightarrow>
        if length ws = 0
        then (db, Inl (ApiError 400 ''Both workers array and driverId are required''))
        else
          (case projects db projectId of
             None \<Rightarrow> (db, Inl (ApiError 404 ''Project not found''))
           | Some proj \<Rightarrow>
              if status proj \<noteq> lpo_received
              then (db, Inl (ApiError 400 ''Project must be in 'lpo_received' status''))
              else if length (findWorkers db ws) \<noteq> length ws
              then (db, Inl (ApiError 400 ''All workers must be engineers''))
              else
                (case findDriver db d of
                   None \<Rightarrow> (db, Inl (ApiError 400 ''Valid driver ID is required''))
                 | Some _ \<Rightarrow>
                    let proj' = proj\<lparr>assignedWorkers := ws, assignedDriver := Some d,
                                     status := team_assigned, updatedBy := Some userId\<rparr>
                    in (db\<lparr>projects := (projects db)(projectId \<mapsto> proj')\<rparr>,
                        Inr (ApiResponse 200 (Some proj')
                               ''Team and driver assigned successfully''))))
     | _ \<Rightarrow> (db, Inl (ApiError 400 ''Both workers array and driverId are required'')))"

section \<open>Labor cost aggregation (controllers/expenseController)\<close>

text \<open>
  \<open>WorkerLabor\<close> and \<open>DriverLabor\<close> (expenseController.ts, lines 26-44) have the same
  fields; the first four carry the prefix \<open>labor\<close> here because the user and attendance
  documents already use their names.
\<close>

record WorkerLabor =
  laborUser :: objectId
  laborFirstName :: string
  laborLastName :: string
  laborProfileImage :: "string option"
  daysPresent :: nat
  dailySalary :: real
  totalSalary :: real

type_synonym DriverLabor = WorkerLabor

record LaborDetails =
  workers :: "WorkerLabor list"
  driver :: DriverLabor
  totalLaborCost :: real

text \<open>\<open>x || 0\<close> for a number that may be \<open>undefined\<close>.\<close>

definition orZero :: "'a::zero option \<Rightarrow> 'a" where
  "orZero x = (case x of None \<Rightarrow> 0 | Some v \<Rightarrow> v)"

text \<open>
  \<open>populate\<close> replaces a reference by the user document it names, paired here with its
  \<open>_id\<close>; a reference to no stored user is dropped from an array and becomes \<open>null\<close>
  for a single field.
\<close>

definition populateUsers :: "database \<Rightarrow> objectId list \<Rightarrow> (objectId \<times> IUser) list" where
  "populateUsers db ids = List.map_filter (\<lambda>w. map_option (Pair w) (users db w)) ids"

definition populateUser :: "database \<Rightarrow> objectId option \<Rightarrow> (objectId \<times> IUser) option" where
  "populateUser db r = (case r of None \<Rightarrow> None | Some d \<Rightarrow> map_option (Pair d) (users db d))"

text \<open>
  The \<open>forEach\<close> that fills \<open>workerDaysMap\<close> (lines 62-66): one more for the record's
  user at every record.
\<close>

definition workerDaysMapOf :: "IAttendance list \<Rightarrow> (objectId \<rightharpoonup> nat)" where
  "workerDaysMapOf records =
    foldl (\<lambda>m record. m(user record \<mapsto> orZero (m (user record)) + 1)) Map.empty records"

text \<open>
  \<open>$dateToString\<close> with format \<open>%Y-%m-%d\<close> prints the UTC calendar day of a date; two
  dates print the same string exactly when they fall on the same UTC day, so a group
  key is modelled as the day number, the timestamp divided by the milliseconds of a day.
\<close>

definition utcDay :: "int \<Rightarrow> int" where
  "utcDay ms = ms div 86400000"

text \<open>
  The aggregation pipeline of lines 69-86: \<open>$match\<close>, \<open>$group\<close> by day, \<open>$count\<close>.
  \<open>$count\<close> yields one document holding the number of groups, and no document when
  there is no group; the list holds the \<open>uniqueDates\<close> field of each result document.
\<close>

definition projectAttendanceDatesOf :: "objectId \<Rightarrow> IAttendance list \<Rightarrow> nat list" where
  "projectAttendanceDatesOf projectId atts =
    (let groups = remdups (map (\<lambda>a. utcDay (date a))
                     (filter (\<lambda>a. project a = Some projectId \<and> present a) atts))
     in if groups = [] then [] else [length groups])"

text \<open>
  \<open>calculateLaborDetails\<close> (expenseController.ts, lines 46-129). \<open>freshId\<close> is the
  value \<open>new Types.ObjectId()\<close> takes in this call: a new identifier at every call,
  used only as the \<open>user\<close> of the placeholder driver record. Here \<open>*\<close> and \<open>+\<close> are
  the exact operations on reals; \<open>calculateLaborDetailsRounded\<close> below is the same
  function with the rounding of every product and sum written out.
\<close>

definition calculateLaborDetails ::
  "objectId \<Rightarrow> objectId \<Rightarrow> database \<Rightarrow> ApiError + LaborDetails" where
  "calculateLaborDetails freshId projectId db =
    (case projects db projectId of
       None \<Rightarrow> Inl (ApiError 404 ''Project not found'')
     | Some proj \<Rightarrow>
        let popWorkers = populateUsers db (assignedWorkers proj);
            popDriver = populateUser db (assignedDriver proj);
            workerAttendanceRecords =
              filter (\<lambda>a. project a = Some projectId \<and> present a
                            \<and> user a \<in> set (map fst popWorkers)) (attendances db);
            workerDaysMap = workerDaysMapOf workerAttendanceRecords;
            projectAttendanceDates = projectAttendanceDatesOf projectId (attendances db);
            driverDaysPresent =
              orZero (case projectAttendanceDates of [] \<Rightarrow> None | r # _ \<Rightarrow> Some r);
            ws = map (\<lambda>(wid, worker).
                        \<lparr>laborUser = wid,
                         laborFirstName = firstName worker,
                         laborLastName = lastName worker,
                         laborProfileImage = profileImage worker,
                         daysPresent = orZero (workerDaysMap wid),
                         dailySalary = orZero (salary worker),
                         totalSalary = real (orZero (workerDaysMap wid)) * orZero (salary worker)\<rparr>)
                     popWorkers;
            dr = (case popDriver of
                    Some (did, d) \<Rightarrow>
                      \<lparr>laborUser = did,
                       laborFirstName = firstName d,
                       laborLastName = lastName d,
                       laborProfileImage = profileImage d,
                       daysPresent = driverDaysPresent,
                       dailySalary = orZero (salary d),
                       totalSalary = real driverDaysPresent * orZero (salary d)\<rparr>
                  | None \<Rightarrow>
                      \<lparr>laborUser = freshId,
                       laborFirstName = [],
                       laborLastName = [],
                       laborProfileImage = None,
                       daysPresent = 0,
                       dailySalary = 0,
                       totalSalary = 0\<rparr>)
        in Inr \<lparr>workers = ws,
                driver = dr,
                totalLaborCost =
                  foldl (\<lambda>sum worker. sum + totalSalary worker) 0 ws + totalSalary dr\<rparr>)"

text \<open>
  The arithmetic of JavaScript numbers. A number is an IEEE 754 binary64 value, and
  \<open>*\<close> and \<open>+\<close> return the exact result rounded to the nearest such value, ties to
  the one with the even significand. \<open>roundDouble\<close> is that rounding on reals: a
  non-zero \<open>x\<close> with \<open>2^k \<le> |x| < 2^(k+1)\<close> lies between multiples of \<open>2^(k-52)\<close>
  (53 significant bits), and below \<open>2^(-1022)\<close> the spacing stays \<open>2^(-1074)\<close>
  (subnormal numbers). Overflow to \<open>Infinity\<close> (results of magnitude \<open>2^1024\<close> and
  more) is not modelled.
\<close>

definition roundHalfEven :: "real \<Rightarrow> int" where
  "roundHalfEven q =
    (let f = \<lfloor>q\<rfloor>
     in if q - of_int f < 1 / 2 then f
        else if q - of_int f > 1 / 2 then f + 1
        else if even f then f else f + 1)"

definition roundDouble :: "real \<Rightarrow> real" where
  "roundDouble x =
    (if x = 0 then 0
     else
       let k = max (- 1022) \<lfloor>log 2 \<bar>x\<bar>\<rfloor>;
           u = 2 powr of_int (k - 52)
       in of_int (roundHalfEven (x / u)) * u)"

text \<open>
  \<open>calculateLaborDetails\<close> once more, line by line the same, with the result of every
  \<open>*\<close> and \<open>+\<close> of the source passed through the rounding \<open>rnd\<close> of the number
  type: \<open>roundDouble\<close> for the numbers JavaScript computes with, the identity for
  exact arithmetic.
\<close>

definition calculateLaborDetailsRounded ::
  "(real \<Rightarrow> real) \<Rightarrow> objectId \<Rightarrow> objectId \<Rightarrow> database \<Rightarrow> ApiError + LaborDetails" where
  "calculateLaborDetailsRounded rnd freshId projectId db =
    (case projects db projectId of
       None \<Rightarrow> Inl (ApiError 404 ''Project not found'')
     | Some proj \<Rightarrow>
        let popWorkers = populateUsers db (assignedWorkers proj);
            popDriver = populateUser db (assignedDriver proj);
            workerAttendanceRecords =
              filter (\<lambda>a. project a = Some projectId \<and> present a
                            \<and> user a \<in> set (map fst popWorkers)) (attendances db);
            workerDaysMap = workerDaysMapOf workerAttendanceRecords;
            projectAttendanceDates = projectAttendanceDatesOf projectId (attendances db);
            driverDaysPresent =
              orZero (case projectAttendanceDates of [] \<Rightarrow> None | r # _ \<Rightarrow> Some r);
            ws = map (\<lambda>(wid, worker).
                        \<lparr>laborUser = wid,
                         laborFirstName = firstName worker,
                         laborLastName = lastName worker,
                         laborProfileImage = profileImage worker,
                         daysPresent = orZero (workerDaysMap wid),
                         dailySalary = orZero (salary worker),
                         totalSalary =
                           rnd (real (orZero (workerDaysMap wid)) * orZero (salary worker))\<rparr>)
                     popWorkers;
            dr = (case popDriver of
                    Some (did, d) \<Rightarrow>
                      \<lparr>laborUser = did,
                       laborFirstName = firstName d,
                       laborLastName = lastName d,
                       laborProfileImage = profileImage d,
                       daysPresent = driverDaysPresent,
                       dailySalary = orZero (salary d),
                       totalSalary = rnd (real driverDaysPresent * orZero (salary d))\<rparr>
                  | None \<Rightarrow>
                      \<lparr>laborUser = freshId,
                       laborFirstName = [],
                       laborLastName = [],
                       laborProfileImage = None,
                       daysPresent = 0,
                       dailySalary = 0,
                       totalSalary = 0\<rparr>)
        in Inr \<lparr>workers = ws,
                driver = dr,
                totalLaborCost =
                  rnd (foldl (\<lambda>sum worker. rnd (sum + totalSalary worker)) 0 ws
                       + totalSalary dr)\<rparr>)"

text \<open>
  "No addition rounds": adding the values of \<open>ts\<close> to \<open>acc\<close> one by one, from left
  to right, every exact partial sum is left unchanged by \<open>rnd\<close>.
\<close>

fun noRounding :: "(real \<Rightarrow> real) \<Rightarrow> real \<Rightarrow> real list \<Rightarrow> bool" where
  "noRounding rnd acc [] = True"
| "noRounding rnd acc (t # ts) = (rnd (acc + t) = acc + t \<and> noRounding rnd (acc + t) ts)"

text \<open>
  What the specification says the aggregation counts, written from its words, to be
  compared with what \<open>calculateLaborDetails\<close> computes: for a worker, the number of
  attendance records of the project with \<open>present = true\<close> and that user, every record
  counting; for the driver, the number of distinct calendar dates among the
  \<open>present = true\<close> attendance records of the project, whoever the user.
\<close>

definition presentRecords_spec :: "database \<Rightarrow> objectId \<Rightarrow> objectId \<Rightarrow> nat" where
  "presentRecords_spec db projectId w =
    length (filter (\<lambda>a. project a = Some projectId \<and> present a \<and> user a = w)
              (attendances db))"

definition distinctAttendedDays_spec :: "database \<Rightarrow> objectId \<Rightarrow> nat" where
  "distinctAttendedDays_spec db projectId =
    card (set (map (\<lambda>a. utcDay (date a))
                (filter (\<lambda>a. project a = Some projectId \<and> present a) (attendances db))))"

text \<open>The row the specification expects for an assigned worker.\<close>

definition workerRow_spec :: "database \<Rightarrow> objectId \<Rightarrow> objectId \<times> IUser \<Rightarrow> WorkerLabor" where
  "workerRow_spec db projectId =
    (\<lambda>(w, u).
      \<lparr>laborUser = w, laborFirstName = firstName u, laborLastName = lastName u,
       laborProfileImage = profileImage u,
       daysPresent = presentRecords_spec db projectId w,
       dailySalary = orZero (salary u),
       totalSalary = real (presentRecords_spec db projectId w) * orZero (salary u)\<rparr>)"

text \<open>
  The figures of a breakdown: every worker row, the driver's days, daily salary and
  total, and the total labor cost. The driver row's \<open>user\<close> is left out.
\<close>

definition laborTotals :: "LaborDetails \<Rightarrow> WorkerLabor list \<times> nat \<times> real \<times> real \<times> real" where
  "laborTotals ld =
    (workers ld, daysPresent (driver ld), dailySalary (driver ld), totalSalary (driver ld),
     totalLaborCost ld)"

section \<open>A sample database\<close>

text \<open>
  Five projects in different statuses, two workers, a driver and an administrator, and
  the attendance of project 13: worker 1 once on 1 January 2024 and twice on
  2 January 2024, worker 2 once on 1 January 2024 (timestamps in milliseconds, at
  different times of the day). The driver has no attendance record.
\<close>

definition draftProject :: IProject where
  "draftProject =
    \<lparr>projectName = ''Villa 12 repainting'', projectNumber = ''PRJ-0001'', client = 7,
     status = draft, progress = 0, createdBy = 4, updatedBy = None,
     assignedTo = None, assignedWorkers = [], assignedDriver = None\<rparr>"

definition sampleUsers :: "objectId \<rightharpoonup> IUser" where
  "sampleUsers =
    [1 \<mapsto> \<lparr>firstName = ''Asif'', lastName = ''K'', profileImage = None,
            role = Worker, salary = Some 50\<rparr>,
     2 \<mapsto> \<lparr>firstName = ''Bilal'', lastName = ''M'', profileImage = None,
            role = Worker, salary = Some 50\<rparr>,
     3 \<mapsto> \<lparr>firstName = ''Dawood'', lastName = ''S'', profileImage = None,
            role = Driver, salary = Some 100\<rparr>,
     4 \<mapsto> \<lparr>firstName = ''Huda'', lastName = ''R'', profileImage = None,
            role = Admin, salary = None\<rparr>]"

definition sampleAttendances :: "IAttendance list" where
  "sampleAttendances =
    [\<lparr>project = Some 13, user = 1, date = 1704096000000, present = True,
      markedBy = 4, attType = ProjectAttendance\<rparr>,
     \<lparr>project = Some 13, user = 1, date = 1704182400000, present = True,
      markedBy = 4, attType = ProjectAttendance\<rparr>,
     \<lparr>project = Some 13, user = 1, date = 1704214800000, present = True,
      markedBy = 4, attType = ProjectAttendance\<rparr>,
     \<lparr>project = Some 13, user = 2, date = 1704101400000, present = True,
      markedBy = 4, attType = ProjectAttendance\<rparr>]"

definition sampleDb :: database where
  "sampleDb =
    \<lparr>projects =
       [10 \<mapsto> draftProject\<lparr>status := lpo_received\<rparr>,
        11 \<mapsto> draftProject,
        12 \<mapsto> draftProject\<lparr>status := work_started\<rparr>,
        13 \<mapsto> draftProject\<lparr>status := team_assigned, progress := 30,
                            assignedWorkers := [1, 2], assignedDriver := Some 3\<rparr>,
        14 \<mapsto> draftProject\<lparr>status := in_progress, progress := 40\<rparr>],
     users = sampleUsers,
     attendances = sampleAttendances\<rparr>"


text \<open>
  A second database for the arithmetic: project 15 with two workers, whose daily
  salaries are \<open>2^53 = 9007199254740992\<close> and 1, and a driver with daily salary 1;
  both workers attended on 1 January 2024.
\<close>

definition roundingUsers :: "objectId \<rightharpoonup> IUser" where
  "roundingUsers =
    [5 \<mapsto> \<lparr>firstName = ''Faisal'', lastName = ''T'', profileImage = None,
            role = Worker, salary = Some 9007199254740992\<rparr>,
     6 \<mapsto> \<lparr>firstName = ''Imran'', lastName = ''N'', profileImage = None,
            role = Worker, salary = Some 1\<rparr>,
     7 \<mapsto> \<lparr>firstName = ''Junaid'', lastName = ''P'', profileImage = None,
            role = Driver, salary = Some 1\<rparr>]"

definition roundingDb :: database where
  "roundingDb =
    \<lparr>projects =
       [15 \<mapsto> draftProject\<lparr>status := team_assigned, assignedWorkers := [5, 6],
                            assignedDriver := Some 7\<rparr>],
     users = roundingUsers,
     attendances =
       [\<lparr>project = Some 15, user = 5, date = 1704096000000, present = True,
         markedBy = 4, attType = ProjectAttendance\<rparr>,
        \<lparr>project = Some 15, user = 6, date = 1704101400000, present = True,
         markedBy = 4, attType = ProjectAttendance\<rparr>]\<rparr>"

section \<open>The status-update operations and the transition table\<close>

lemma optIncludes_tableEntry:
  "optIncludes (objGet tbl cur) target \<longleftrightarrow> target \<in> set (tableEntry tbl cur)"
  by (simp add: optIncludes_def tableEntry_def split: option.split)

lemma tableEntry_lpo_src:
  "tableEntry validStatusTransitions lpo_received = [work_started, on_hold, cancelled]"
  by (simp add: tableEntry_def validStatusTransitions_def objGet_def)

lemma tableEntry_lpo_dist:
  "tableEntry validStatusTransitions_dist lpo_received = [team_assigned, on_hold, cancelled]"
  by (simp add: tableEntry_def validStatusTransitions_dist_def objGet_def)

text \<open>
  Claim C1. For a stored project \<open>p\<close> and any target status, with either variant of
  the table (\<open>tbl\<close> is arbitrary): when the target is in the table's entry for the
  current status, \<open>updateProjectStatus\<close> succeeds and stores the project with status
  = target and \<open>updatedBy\<close> set, changing no other project, and \<open>updateProject\<close>
  with that status in its body (and a progress that is absent or within 0..100)
  succeeds and stores status = target. When the target is not in the entry, both throw
  the 400 error "Invalid status transition from <current> to <target>" (the
  specification's InvalidTransition) and leave the database as it was.
\<close>

theorem status_update_follows_table:
  assumes stored: "projects db i = Some p"
    and body: "ud_status ud = Some target"
    and prog: "case ud_progress ud of None \<Rightarrow> True | Some q \<Rightarrow> 0 \<le> q \<and> q \<le> 100"
  shows
    "(target \<in> set (tableEntry tbl (status p)) \<longrightarrow>
        succeeded (updateProjectStatus tbl uid i (Some target) db)
        \<and> projects (fst (updateProjectStatus tbl uid i (Some target) db))
            = (projects db)(i \<mapsto> p\<lparr>status := target, updatedBy := Some uid\<rparr>)
        \<and> succeeded (updateProject tbl uid i ud db)
        \<and> storedStatus (fst (updateProject tbl uid i ud db)) i = Some target)
   \<and> (target \<notin> set (tableEntry tbl (status p)) \<longrightarrow>
        updateProjectStatus tbl uid i (Some target) db
          = (db, Inl (ApiError 400 (''Invalid status transition from '' @ statusName (status p)
                                      @ '' to '' @ statusName target)))
        \<and> updateProject tbl uid i ud db
          = (db, Inl (ApiError 400 (''Invalid status transition from '' @ statusName (status p)
                                      @ '' to '' @ statusName target))))"
proof -
  have ok: "\<not> (case ud_progress ud of None \<Rightarrow> False | Some q \<Rightarrow> q < 0 \<or> q > 100)"
    using prog by (simp split: option.splits)
  show ?thesis
    using stored body ok
    by (simp add: updateProjectStatus_def updateProject_def findByIdAndUpdate_def succeeded_def
        applyUpdateData_def optIncludes_tableEntry storedStatus_def)
qed

text \<open>
  The theorem at project 10 of the sample database (status \<open>lpo_received\<close>) and the
  target \<open>on_hold\<close>, which the table allows.
\<close>

theorem status_update_follows_table_witness:
  "succeeded (updateProjectStatus validStatusTransitions 4 10 (Some on_hold) sampleDb)
   \<and> storedStatus (fst (updateProject validStatusTransitions 4 10
         \<lparr>ud_progress = Some 20, ud_status = Some on_hold\<rparr> sampleDb)) 10 = Some on_hold"
  using status_update_follows_table [of sampleDb 10 "draftProject\<lparr>status := lpo_received\<rparr>"
      "\<lparr>ud_progress = Some 20, ud_status = Some on_hold\<rparr>" on_hold validStatusTransitions 4]
  by (simp add: sampleDb_def tableEntry_lpo_src)

text \<open>
  Claim C2 as stated fails. Project 10 has status \<open>lpo_received\<close>; with the table of
  the TypeScript source the target \<open>team_assigned\<close> is refused, and with the table of
  the compiled file the target \<open>work_started\<close> is refused, each with the 400 error and
  no change to the database.
\<close>

theorem lpo_received_targets_counterexample:
  "storedStatus sampleDb 10 = Some lpo_received
   \<and> updateProjectStatus validStatusTransitions 4 10 (Some team_assigned) sampleDb
       = (sampleDb,
          Inl (ApiError 400 ''Invalid status transition from lpo_received to team_assigned''))
   \<and> updateProjectStatus validStatusTransitions_dist 4 10 (Some work_started) sampleDb
       = (sampleDb,
          Inl (ApiError 400 ''Invalid status transition from lpo_received to work_started''))"
  by (simp add: updateProjectStatus_def storedStatus_def sampleDb_def optIncludes_tableEntry
      tableEntry_lpo_src tableEntry_lpo_dist)

text \<open>
  Claim C2, amended. For a project whose current status is \<open>lpo_received\<close>, the
  targets the status-transition check accepts are exactly \<open>work_started\<close>, \<open>on_hold\<close>
  and \<open>cancelled\<close> with the table of src/controllers/projectController.ts, and exactly
  \<open>team_assigned\<close>, \<open>on_hold\<close> and \<open>cancelled\<close> with the table of
  dist/controllers/projectController.js, whose later \<open>lpo_received\<close> key overrides the
  earlier one: a request to one of these targets succeeds, to any other target fails.
\<close>

theorem lpo_received_targets:
  assumes "projects db i = Some p" and "status p = lpo_received"
  shows "(succeeded (updateProjectStatus validStatusTransitions uid i (Some target) db)
            \<longleftrightarrow> target \<in> {work_started, on_hold, cancelled})
       \<and> (succeeded (updateProjectStatus validStatusTransitions_dist uid i (Some target) db)
            \<longleftrightarrow> target \<in> {team_assigned, on_hold, cancelled})"
  using assms
  by (simp add: updateProjectStatus_def findByIdAndUpdate_def succeeded_def
      optIncludes_tableEntry tableEntry_lpo_src tableEntry_lpo_dist)

text \<open>The amended statement at project 10, for the two targets the variants differ on.\<close>

theorem lpo_received_targets_witness:
  "succeeded (updateProjectStatus validStatusTransitions 4 10 (Some work_started) sampleDb)
   \<and> \<not> succeeded (updateProjectStatus validStatusTransitions 4 10 (Some team_assigned) sampleDb)
   \<and> succeeded (updateProjectStatus validStatusTransitions_dist 4 10 (Some team_assigned) sampleDb)
   \<and> \<not> succeeded (updateProjectStatus validStatusTransitions_dist 4 10 (Some work_started) sampleDb)"
  using lpo_received_targets [of sampleDb 10 "draftProject\<lparr>status := lpo_received\<rparr>" 4 work_started]
    lpo_received_targets [of sampleDb 10 "draftProject\<lparr>status := lpo_received\<rparr>" 4 team_assigned]
  by (simp add: sampleDb_def)

section \<open>Deletion\<close>

text \<open>
  Claim C7. For a stored project whose status is not \<open>draft\<close>, \<open>deleteProject\<close>
  throws the 400 error "Cannot delete project that has already started" (the
  specification's PreconditionFailed) and the database, the project included, is as it
  was; for a project whose status is \<open>draft\<close> it succeeds and the collection is the
  old one without that project.
\<close>

theorem delete_only_draft:
  assumes "projects db i = Some p"
  shows "(status p \<noteq> draft \<longrightarrow>
            deleteProject i db
              = (db, Inl (ApiError 400 ''Cannot delete project that has already started'')))
       \<and> (status p = draft \<longrightarrow>
            succeeded (deleteProject i db)
            \<and> projects (fst (deleteProject i db)) = (projects db)(i := None))"
  using assms by (simp add: deleteProject_def succeeded_def)

text \<open>
  Deleting project 10 (status \<open>lpo_received\<close>) fails and keeps it; deleting project 11
  (status \<open>draft\<close>) succeeds and removes it.
\<close>

theorem delete_only_draft_witness:
  "deleteProject 10 sampleDb
     = (sampleDb, Inl (ApiError 400 ''Cannot delete project that has already started''))
   \<and> projects sampleDb 10 \<noteq> None
   \<and> succeeded (deleteProject 11 sampleDb)
   \<and> projects (fst (deleteProject 11 sampleDb)) 11 = None"
  using delete_only_draft [of sampleDb 10 "draftProject\<lparr>status := lpo_received\<rparr>"]
    delete_only_draft [of sampleDb 11 draftProject]
  by (simp add: sampleDb_def draftProject_def)


section \<open>Team assignment\<close>

lemma findWorkers_all:
  assumes "distinct ws" and "\<forall>w\<in>set ws. \<exists>u. users db w = Some u \<and> role u = Worker"
  shows "length (findWorkers db ws) = length ws"
proof -
  have "List.map_filter (\<lambda>w. case users db w of None \<Rightarrow> None
            | Some u \<Rightarrow> if role u = Worker then Some u else None) ws
        = map (\<lambda>w. the (users db w)) ws"
    using assms(2) by (induction ws) auto
  then show ?thesis
    using assms(1) by (simp add: findWorkers_def distinct_remdups_id)
qed

text \<open>
  Claim C10. For a stored project: when its status is not \<open>lpo_received\<close>,
  \<open>assignTeamAndDriver\<close> throws a 400 error and the database is as it was, whatever the
  request holds. Whenever it succeeds, the status was \<open>lpo_received\<close>, the request held
  a worker list whose members were all found as workers and a driver id found as a
  driver, and the stored project is the old one with \<open>assignedWorkers\<close> and
  \<open>assignedDriver\<close> set to those inputs, status \<open>team_assigned\<close> and \<open>updatedBy\<close>
  set; no other project changes. It does succeed from \<open>lpo_received\<close> for a non-empty
  list of distinct stored workers and a stored driver. The handler takes no transition
  table: the status is assigned directly.
\<close>

theorem assign_team_requires_lpo_received:
  assumes stored: "projects db i = Some p"
  shows "(status p \<noteq> lpo_received \<longrightarrow>
            fst (assignTeamAndDriver uid i wsReq dReq db) = db
            \<and> (\<exists>msg. snd (assignTeamAndDriver uid i wsReq dReq db) = Inl (ApiError 400 msg)))
       \<and> (succeeded (assignTeamAndDriver uid i wsReq dReq db) \<longrightarrow>
            status p = lpo_received
            \<and> (\<exists>ws d. wsReq = Some ws \<and> dReq = Some d
                 \<and> length (findWorkers db ws) = length ws \<and> findDriver db d \<noteq> None
                 \<and> projects (fst (assignTeamAndDriver uid i wsReq dReq db))
                    = (projects db)(i \<mapsto> p\<lparr>assignedWorkers := ws, assignedDriver := Some d,
                                             status := team_assigned, updatedBy := Some uid\<rparr>)))
       \<and> (status p = lpo_received \<and> ws \<noteq> [] \<and> distinct ws
            \<and> (\<forall>w\<in>set ws. \<exists>u. users db w = Some u \<and> role u = Worker)
            \<and> (\<exists>u. users db d = Some u \<and> role u = Driver) \<longrightarrow>
            succeeded (assignTeamAndDriver uid i (Some ws) (Some d) db))"
proof (intro conjI impI)
  assume "status p \<noteq> lpo_received"
  then show "fst (assignTeamAndDriver uid i wsReq dReq db) = db"
    using stored by (simp add: assignTeamAndDriver_def split: option.splits prod.splits)
next
  assume "status p \<noteq> lpo_received"
  then show "\<exists>msg. snd (assignTeamAndDriver uid i wsReq dReq db) = Inl (ApiError 400 msg)"
    using stored by (simp add: assignTeamAndDriver_def split: option.splits prod.splits)
next
  assume ok: "succeeded (assignTeamAndDriver uid i wsReq dReq db)"
  then show "status p = lpo_received"
    using stored
    by (auto simp: assignTeamAndDriver_def succeeded_def split: option.splits if_splits)
next
  assume ok: "succeeded (assignTeamAndDriver uid i wsReq dReq db)"
  then show "\<exists>ws d. wsReq = Some ws \<and> dReq = Some d
                 \<and> length (findWorkers db ws) = length ws \<and> findDriver db d \<noteq> None
                 \<and> projects (fst (assignTeamAndDriver uid i wsReq dReq db))
                    = (projects db)(i \<mapsto> p\<lparr>assignedWorkers := ws, assignedDriver := Some d,
                                             status := team_assigned, updatedBy := Some uid\<rparr>)"
    using stored
    by (auto simp: assignTeamAndDriver_def succeeded_def Let_def split: option.splits if_splits)
next
  assume h: "status p = lpo_received \<and> ws \<noteq> [] \<and> distinct ws
            \<and> (\<forall>w\<in>set ws. \<exists>u. users db w = Some u \<and> role u = Worker)
            \<and> (\<exists>u. users db d = Some u \<and> role u = Driver)"
  then have len: "length (findWorkers db ws) = length ws"
    by (simp add: findWorkers_all)
  from h have drv: "findDriver db d \<noteq> None"
    by (auto simp: findDriver_def)
  show "succeeded (assignTeamAndDriver uid i (Some ws) (Some d) db)"
    using stored h len drv
    by (auto simp: assignTeamAndDriver_def succeeded_def Let_def split: option.splits)
qed

text \<open>
  On the sample database the draft project 11 is refused and project 10
  (\<open>lpo_received\<close>) is moved to \<open>team_assigned\<close>, a target that the table of the
  TypeScript source does not list for \<open>lpo_received\<close>.
\<close>

theorem assign_team_requires_lpo_received_witness:
  "fst (assignTeamAndDriver 4 11 (Some [1, 2]) (Some 3) sampleDb) = sampleDb
   \<and> (\<exists>msg. snd (assignTeamAndDriver 4 11 (Some [1, 2]) (Some 3) sampleDb) = Inl (ApiError 400 msg))
   \<and> succeeded (assignTeamAndDriver 4 10 (Some [1, 2]) (Some 3) sampleDb)
   \<and> storedStatus (fst (assignTeamAndDriver 4 10 (Some [1, 2]) (Some 3) sampleDb)) 10
       = Some team_assigned
   \<and> team_assigned \<notin> set (tableEntry validStatusTransitions lpo_received)"
proof -
  have a: "projects sampleDb 11 = Some draftProject" "status draftProject \<noteq> lpo_received"
    by (simp_all add: sampleDb_def draftProject_def)
  have b: "projects sampleDb 10 = Some (draftProject\<lparr>status := lpo_received\<rparr>)"
    by (simp add: sampleDb_def)
  have c: "status (draftProject\<lparr>status := lpo_received\<rparr>) = lpo_received \<and> [1, 2] \<noteq> ([]::nat list)
      \<and> distinct [1::nat, 2]
      \<and> (\<forall>w\<in>set [1::nat, 2]. \<exists>u. users sampleDb w = Some u \<and> role u = Worker)
      \<and> (\<exists>u. users sampleDb 3 = Some u \<and> role u = Driver)"
    by (simp add: sampleDb_def sampleUsers_def)
  from assign_team_requires_lpo_received [OF b, of 4 "Some [1, 2]" "Some 3" "[1, 2]" 3] c
  have ok: "succeeded (assignTeamAndDriver 4 10 (Some [1, 2]) (Some 3) sampleDb)"
    and st: "succeeded (assignTeamAndDriver 4 10 (Some [1, 2]) (Some 3) sampleDb) \<longrightarrow>
       (\<exists>ws d. Some [1, 2] = Some ws \<and> Some 3 = Some d
                 \<and> length (findWorkers sampleDb ws) = length ws \<and> findDriver sampleDb d \<noteq> None
                 \<and> projects (fst (assignTeamAndDriver 4 10 (Some [1, 2]) (Some 3) sampleDb))
                    = (projects sampleDb)(10 \<mapsto> draftProject\<lparr>status := lpo_received\<rparr>\<lparr>assignedWorkers := ws, assignedDriver := Some d,
                                             status := team_assigned, updatedBy := Some 4\<rparr>))"
    by blast+
  from ok st have "storedStatus (fst (assignTeamAndDriver 4 10 (Some [1, 2]) (Some 3) sampleDb)) 10
       = Some team_assigned"
    by (auto simp: storedStatus_def)
  with ok assign_team_requires_lpo_received [OF a(1), of 4 "Some [1, 2]" "Some 3"] a(2)
  show ?thesis
    by (simp add: tableEntry_lpo_src)
qed


section \<open>Progress updates\<close>

text \<open>
  Claim C5. For a stored project in any status, a progress update that submits exactly
  100 succeeds and leaves the stored status \<open>work_completed\<close>: a project in another
  status is moved there without any look at the transition table (the handler takes
  none), and a project already in \<open>work_completed\<close> stays there.
\<close>

theorem progress_100_completes:
  assumes "projects db i = Some p"
  shows "succeeded (updateProjectProgress uid i (Some 100) db)
       \<and> storedStatus (fst (updateProjectProgress uid i (Some 100) db)) i = Some work_completed"
  using assms
  by (simp add: updateProjectProgress_def findByIdAndUpdate_def succeeded_def storedStatus_def
      Let_def)

text \<open>
  The draft project 11 of the sample database ends in \<open>work_completed\<close>, a target
  neither table lists for \<open>draft\<close>.
\<close>

theorem progress_100_completes_witness:
  "storedStatus sampleDb 11 = Some draft
   \<and> work_completed \<notin> set (tableEntry validStatusTransitions draft)
   \<and> work_completed \<notin> set (tableEntry validStatusTransitions_dist draft)
   \<and> succeeded (updateProjectProgress 4 11 (Some 100) sampleDb)
   \<and> storedStatus (fst (updateProjectProgress 4 11 (Some 100) sampleDb)) 11 = Some work_completed"
  using progress_100_completes [of sampleDb 11 draftProject 4]
  by (simp add: sampleDb_def draftProject_def storedStatus_def tableEntry_def objGet_def
      validStatusTransitions_def validStatusTransitions_dist_def)

text \<open>
  Claim C6 as stated fails. Project 12 has status \<open>work_started\<close> and stored progress
  0; a progress update submitting 50, a value greater than zero, succeeds and stores
  the progress 50, and the status is still \<open>work_started\<close>, not \<open>in_progress\<close>.
\<close>

theorem progress_auto_advance_counterexample:
  "projects sampleDb 12 = Some (draftProject\<lparr>status := work_started\<rparr>)
   \<and> progress (draftProject\<lparr>status := work_started\<rparr>) = 0
   \<and> succeeded (updateProjectProgress 4 12 (Some 50) sampleDb)
   \<and> projects (fst (updateProjectProgress 4 12 (Some 50) sampleDb)) 12
       = Some (draftProject\<lparr>status := work_started, progress := 50, updatedBy := Some 4\<rparr>)"
  by (simp add: updateProjectProgress_def findByIdAndUpdate_def succeeded_def Let_def
      sampleDb_def draftProject_def)

text \<open>
  Claim C6, amended. During a progress update the auto-advance reads the progress
  stored before the update, not the submitted value. With a submitted value in 0..100
  the update succeeds, and when the submitted value is not 100: a project in status
  \<open>team_assigned\<close> (stored progress at least 0) advances to \<open>work_started\<close>, and in
  the same call on to \<open>in_progress\<close> when its stored progress is greater than 0; a
  project in status \<open>work_started\<close> advances to \<open>in_progress\<close> when its stored
  progress is greater than 0 and keeps its status otherwise; a project in any other
  status keeps it. A submitted 100 gives \<open>work_completed\<close>. No transition table is
  consulted.
\<close>

theorem progress_auto_advance:
  assumes "projects db i = Some p" and "0 \<le> submitted" and "submitted \<le> 100"
  shows "succeeded (updateProjectProgress uid i (Some submitted) db)
       \<and> storedStatus (fst (updateProjectProgress uid i (Some submitted) db)) i =
           Some (if submitted = 100 then work_completed
                 else if status p = team_assigned \<and> 0 \<le> progress p
                   then (if 0 < progress p then in_progress else work_started)
                 else if status p = work_started \<and> 0 < progress p then in_progress
                 else status p)"
  using assms
  by (simp add: updateProjectProgress_def findByIdAndUpdate_def succeeded_def storedStatus_def
      Let_def)

text \<open>
  Project 13 (\<open>team_assigned\<close>, stored progress 30) goes to \<open>in_progress\<close> in one
  update, a target the table does not list for \<open>team_assigned\<close>; project 12
  (\<open>work_started\<close>, stored progress 0) keeps its status.
\<close>

theorem progress_auto_advance_witness:
  "storedStatus (fst (updateProjectProgress 4 13 (Some 35) sampleDb)) 13 = Some in_progress
   \<and> in_progress \<notin> set (tableEntry validStatusTransitions team_assigned)
   \<and> storedStatus (fst (updateProjectProgress 4 12 (Some 50) sampleDb)) 12 = Some work_started"
  using progress_auto_advance [of sampleDb 13 "draftProject\<lparr>status := team_assigned, progress := 30,
                            assignedWorkers := [1, 2], assignedDriver := Some 3\<rparr>" 35 4]
    progress_auto_advance [of sampleDb 12 "draftProject\<lparr>status := work_started\<rparr>" 50 4]
  by (simp add: sampleDb_def draftProject_def tableEntry_def objGet_def validStatusTransitions_def)


section \<open>Properties of the labor cost aggregation\<close>

subsection \<open>What the aggregation computes\<close>

lemma workerDays_foldl:
  "orZero (foldl (\<lambda>m record. m(user record \<mapsto> orZero (m (user record)) + 1)) m0 records k)
     = orZero (m0 k) + length (filter (\<lambda>a. user a = k) records)"
  by (induction records arbitrary: m0) (simp_all add: orZero_def)

lemma workerDaysMapOf_count:
  "orZero (workerDaysMapOf records k) = length (filter (\<lambda>a. user a = k) records)"
proof -
  have "orZero (workerDaysMapOf records k)
          = orZero (Map.empty k) + length (filter (\<lambda>a. user a = k) records)"
    unfolding workerDaysMapOf_def by (rule workerDays_foldl)
  then show ?thesis by (simp add: orZero_def)
qed



lemma count_groups:
  "orZero (case (if remdups xs = [] then [] else [length (remdups xs)]) of
             [] \<Rightarrow> None | r # _ \<Rightarrow> Some r) = card (set xs)"
  by (cases "xs = []") (simp_all add: orZero_def List.card_set)

lemma driverDays_eq:
  "orZero (case projectAttendanceDatesOf pid atts of [] \<Rightarrow> None | r # _ \<Rightarrow> Some r)
     = card (set (map (\<lambda>a. utcDay (date a)) (filter (\<lambda>a. project a = Some pid \<and> present a) atts)))"
  unfolding projectAttendanceDatesOf_def Let_def by (rule count_groups)

lemma calc_workers:
  assumes "projects db pid = Some p" and "calculateLaborDetails fresh pid db = Inr ld"
  shows "workers ld = map (workerRow_spec db pid) (populateUsers db (assignedWorkers p))"
proof -
  let ?pw = "populateUsers db (assignedWorkers p)"
  let ?recs = "filter (\<lambda>a. project a = Some pid \<and> present a \<and> user a \<in> set (map fst ?pw))
                 (attendances db)"
  have cnt: "orZero (workerDaysMapOf ?recs w) = presentRecords_spec db pid w"
    if "(w, u) \<in> set ?pw" for w u
  proof -
    from that have mem: "w \<in> set (map fst ?pw)" by force
    have "filter (\<lambda>a. user a = w) ?recs
            = filter (\<lambda>a. project a = Some pid \<and> present a \<and> user a = w) (attendances db)"
      unfolding filter_filter by (rule filter_cong [OF refl]) (use mem in blast)
    then show ?thesis
      unfolding workerDaysMapOf_count presentRecords_spec_def by (rule arg_cong)
  qed
  have "workers ld = map (\<lambda>(wid, worker).
                        \<lparr>laborUser = wid,
                         laborFirstName = firstName worker,
                         laborLastName = lastName worker,
                         laborProfileImage = profileImage worker,
                         daysPresent = orZero (workerDaysMapOf ?recs wid),
                         dailySalary = orZero (salary worker),
                         totalSalary = real (orZero (workerDaysMapOf ?recs wid)) * orZero (salary worker)\<rparr>) ?pw"
    using assms by (auto simp: calculateLaborDetails_def Let_def)
  also have "\<dots> = map (workerRow_spec db pid) ?pw"
  proof (rule map_cong [OF refl])
    fix x assume mem: "x \<in> set ?pw"
    obtain w u where x: "x = (w, u)"
      by (cases x)
    from mem x have "(w, u) \<in> set ?pw"
      by simp
    then show "(case x of (wid, worker) \<Rightarrow>
                        \<lparr>laborUser = wid,
                         laborFirstName = firstName worker,
                         laborLastName = lastName worker,
                         laborProfileImage = profileImage worker,
                         daysPresent = orZero (workerDaysMapOf ?recs wid),
                         dailySalary = orZero (salary worker),
                         totalSalary = real (orZero (workerDaysMapOf ?recs wid)) * orZero (salary worker)\<rparr>)
               = workerRow_spec db pid x"
      using cnt [of w u] x by (simp add: workerRow_spec_def)
  qed
  finally show ?thesis .
qed

lemma calc_driver:
  assumes "projects db pid = Some p" and "calculateLaborDetails fresh pid db = Inr ld"
  shows "driver ld =
    (case populateUser db (assignedDriver p) of
       Some (did, d) \<Rightarrow>
         \<lparr>laborUser = did, laborFirstName = firstName d, laborLastName = lastName d,
          laborProfileImage = profileImage d,
          daysPresent = distinctAttendedDays_spec db pid,
          dailySalary = orZero (salary d),
          totalSalary = real (distinctAttendedDays_spec db pid) * orZero (salary d)\<rparr>
     | None \<Rightarrow>
         \<lparr>laborUser = fresh, laborFirstName = [], laborLastName = [],
          laborProfileImage = None, daysPresent = 0, dailySalary = 0, totalSalary = 0\<rparr>)"
  using assms
  by (auto simp: calculateLaborDetails_def Let_def driverDays_eq distinctAttendedDays_spec_def
      split: option.splits)

lemma calc_total:
  assumes "calculateLaborDetails fresh pid db = Inr ld"
  shows "totalLaborCost ld =
           foldl (\<lambda>sum worker. sum + totalSalary worker) 0 (workers ld) + totalSalary (driver ld)"
  using assms
  by (auto simp: calculateLaborDetails_def Let_def split: option.splits)

lemma calc_Inr:
  "projects db pid = Some p \<Longrightarrow> \<exists>ld. calculateLaborDetails fresh pid db = Inr ld"
  by (simp add: calculateLaborDetails_def Let_def)




subsection \<open>Worker labor\<close>



subsection \<open>Driver labor\<close>



subsection \<open>Invariant of a breakdown\<close>

text \<open>Evaluating \<open>roundDouble\<close>: inside a binade, and on the integers up to \<open>2^53\<close>.\<close>

lemma roundDouble_binade:
  assumes "2 powr of_int k \<le> \<bar>x\<bar>" and "\<bar>x\<bar> < 2 powr of_int (k + 1)" and "- 1022 \<le> k"
  shows "roundDouble x = of_int (roundHalfEven (x / 2 powr of_int (k - 52))) * 2 powr of_int (k - 52)"
proof -
  have pos: "0 < \<bar>x\<bar>"
    using assms(1) powr_gt_zero [of 2 "of_int k"] by linarith
  then have "\<lfloor>log 2 \<bar>x\<bar>\<rfloor> = k"
    using assms(1,2) by (simp add: floor_log_eq_powr_iff)
  with pos assms(3) show ?thesis
    by (simp add: roundDouble_def Let_def max_def)
qed

lemma roundHalfEven_of_int: "roundHalfEven (of_int m) = m"
  by (simp add: roundHalfEven_def)

lemma roundDouble_of_int:
  assumes "\<bar>n\<bar> \<le> 2 ^ 53"
  shows "roundDouble (of_int n) = of_int n"
proof (cases "n = 0")
  case True
  then show ?thesis by (simp add: roundDouble_def)
next
  case False
  define k where "k = \<lfloor>log 2 \<bar>real_of_int n\<bar>\<rfloor>"
  have pos: "0 < \<bar>real_of_int n\<bar>" and ge1: "1 \<le> \<bar>real_of_int n\<bar>"
    using False by simp_all
  have bounds: "2 powr of_int k \<le> \<bar>real_of_int n\<bar>" "\<bar>real_of_int n\<bar> < 2 powr of_int (k + 1)"
    using floor_log_eq_powr_iff [of "\<bar>real_of_int n\<bar>" 2 k] pos by (simp_all add: k_def)
  have k0: "0 \<le> k"
    unfolding k_def using ge1 by simp
  have "real_of_int \<bar>n\<bar> \<le> 2 ^ 53"
    using assms by (metis of_int_le_iff of_int_numeral of_int_power)
  then have le: "\<bar>real_of_int n\<bar> \<le> 2 ^ 53"
    by simp
  have p53: "(2::real) powr real_of_int 53 = 2 ^ 53"
    by simp
  have "2 powr of_int k \<le> (2::real) powr real_of_int 53"
    unfolding p53 using bounds(1) le by linarith
  moreover have "(1::real) < 2"
    by simp
  ultimately have "real_of_int k \<le> real_of_int 53"
    by (simp only: powr_le_cancel_iff)
  then have k53: "k \<le> 53"
    by linarith
  define e where "e = nat (53 - k)"
  have ek: "k - 52 = 1 - int e"
    using k53 by (simp add: e_def)
  have "real_of_int (k - 52) = 1 - real e"
    using ek by simp
  then have "(2::real) powr of_int (k - 52) = 2 powr 1 / 2 powr real e"
    by (simp only: powr_diff)
  then have u: "(2::real) powr of_int (k - 52) = 2 / 2 ^ e"
    by (simp add: powr_realpow)
  have "\<exists>m. real_of_int n / (2 / 2 ^ e) = of_int m"
  proof (cases e)
    case 0
    then have "k = 53" using k53 by (simp add: e_def)
    with bounds(1) le have "\<bar>real_of_int n\<bar> = 2 ^ 53"
      by simp
    then have "\<bar>n\<bar> = 2 ^ 53"
      by (metis of_int_abs of_int_eq_iff of_int_numeral of_int_power)
    then have "even n"
      by (metis even_abs_add_iff even_add even_numeral even_power zero_less_numeral)
    then obtain m where "n = 2 * m" by (auto elim: evenE)
    with 0 show ?thesis by (intro exI [of _ m]) simp
  next
    case (Suc e')
    then show ?thesis
      by (intro exI [of _ "n * 2 ^ e'"]) simp
  qed
  then obtain m where m: "real_of_int n / 2 powr of_int (k - 52) = of_int m"
    unfolding u by blast
  have "roundDouble (of_int n) = of_int m * 2 powr of_int (k - 52)"
    using roundDouble_binade [OF bounds] k0 m by (simp add: roundHalfEven_of_int)
  also have "\<dots> = of_int n"
    using m by (simp add: field_simps)
  finally show ?thesis .
qed

lemma roundDouble_numeral:
  "(numeral w :: int) \<le> 2 ^ 53 \<Longrightarrow> roundDouble (numeral w) = numeral w"
  using roundDouble_of_int [of "numeral w"] by simp

lemma roundDouble_0: "roundDouble 0 = 0"
  by (simp add: roundDouble_def)

lemma roundDouble_1: "roundDouble 1 = 1"
  using roundDouble_of_int [of 1] by simp

lemma roundDouble_tie: "roundDouble 9007199254740993 = 9007199254740992"
  using roundDouble_binade [of 53 9007199254740993] by (simp add: roundHalfEven_def)

lemma exact_arithmetic:
  "calculateLaborDetailsRounded (\<lambda>x. x) fresh pid db = calculateLaborDetails fresh pid db"
  by (simp add: calculateLaborDetailsRounded_def calculateLaborDetails_def)

lemma noRounding_foldl:
  "noRounding rnd acc ts \<Longrightarrow> foldl (\<lambda>s t. rnd (s + t)) acc ts = acc + sum_list ts"
  by (induction ts arbitrary: acc) (simp_all add: add.assoc)

lemma foldl_totals:
  "rnd (foldl (\<lambda>sum worker. rnd (sum + f worker)) acc ws + d)
     = foldl (\<lambda>s t. rnd (s + t)) acc (map f ws @ [d])"
  by (simp add: foldl_map)

lemma roundedTotals:
  assumes "calculateLaborDetailsRounded rnd fresh pid db = Inr ld"
  shows "totalLaborCost ld =
           rnd (foldl (\<lambda>sum worker. rnd (sum + totalSalary worker)) 0 (workers ld)
                + totalSalary (driver ld))"
  using assms
  by (auto simp: calculateLaborDetailsRounded_def Let_def split: option.splits)

lemma sample_labor_double:
  "calculateLaborDetailsRounded roundDouble fresh 13 sampleDb =
     Inr \<lparr>workers =
            [\<lparr>laborUser = 1, laborFirstName = ''Asif'', laborLastName = ''K'',
              laborProfileImage = None, daysPresent = 3, dailySalary = 50, totalSalary = 150\<rparr>,
             \<lparr>laborUser = 2, laborFirstName = ''Bilal'', laborLastName = ''M'',
              laborProfileImage = None, daysPresent = 1, dailySalary = 50, totalSalary = 50\<rparr>],
          driver =
            \<lparr>laborUser = 3, laborFirstName = ''Dawood'', laborLastName = ''S'',
             laborProfileImage = None, daysPresent = 2, dailySalary = 100, totalSalary = 200\<rparr>,
          totalLaborCost = 400\<rparr>"
  by (simp add: calculateLaborDetailsRounded_def Let_def sampleDb_def sampleUsers_def
      sampleAttendances_def populateUsers_def populateUser_def
      workerDaysMapOf_def orZero_def projectAttendanceDatesOf_def utcDay_def draftProject_def
      roundDouble_numeral)

text \<open>
  Claim C8 as stated fails. On project 15 the rows' \<open>totalSalary\<close> are
  9007199254740992 and 1 for the workers and 1 for the driver. The reduce adds 1 to
  9007199254740992, which rounds back to 9007199254740992 (a tie, resolved to the even
  significand), and adding the driver's 1 rounds the same way: the handler returns
  \<open>totalLaborCost\<close> = 9007199254740992, while the sum of the rows is
  9007199254740994.
\<close>

theorem labor_total_rounds_counterexample:
  "calculateLaborDetailsRounded roundDouble 99 15 roundingDb =
     Inr \<lparr>workers =
            [\<lparr>laborUser = 5, laborFirstName = ''Faisal'', laborLastName = ''T'',
              laborProfileImage = None, daysPresent = 1, dailySalary = 9007199254740992,
              totalSalary = 9007199254740992\<rparr>,
             \<lparr>laborUser = 6, laborFirstName = ''Imran'', laborLastName = ''N'',
              laborProfileImage = None, daysPresent = 1, dailySalary = 1, totalSalary = 1\<rparr>],
          driver =
            \<lparr>laborUser = 7, laborFirstName = ''Junaid'', laborLastName = ''P'',
             laborProfileImage = None, daysPresent = 1, dailySalary = 1, totalSalary = 1\<rparr>,
          totalLaborCost = 9007199254740992\<rparr>
   \<and> (9007199254740992 :: real) \<noteq> sum_list [9007199254740992, 1] + 1"
  by (simp add: calculateLaborDetailsRounded_def Let_def roundingDb_def roundingUsers_def
      populateUsers_def populateUser_def
      workerDaysMapOf_def orZero_def projectAttendanceDatesOf_def utcDay_def draftProject_def
      roundDouble_numeral roundDouble_1 roundDouble_tie)

text \<open>
  Claim C8, amended. Every breakdown the aggregation returns satisfies, with the
  arithmetic of the number type (any rounding \<open>rnd\<close> that leaves 0 unchanged, so in
  particular \<open>roundDouble\<close>): \<open>totalSalary\<close> is the rounded product of \<open>daysPresent\<close>
  and \<open>dailySalary\<close> in every worker row and in the driver row, and \<open>totalLaborCost\<close>
  is the workers' \<open>totalSalary\<close> added one by one from 0 in list order, then the
  driver's, each addition rounded. It is the exact sum of the workers' \<open>totalSalary\<close>
  plus the driver's whenever none of these additions rounds.
\<close>

theorem labor_details_rounded_invariant:
  assumes "calculateLaborDetailsRounded rnd fresh pid db = Inr ld" and "rnd 0 = 0"
  shows "(\<forall>w\<in>set (workers ld). totalSalary w = rnd (real (daysPresent w) * dailySalary w))
       \<and> totalSalary (driver ld) = rnd (real (daysPresent (driver ld)) * dailySalary (driver ld))
       \<and> totalLaborCost ld =
            rnd (foldl (\<lambda>sum worker. rnd (sum + totalSalary worker)) 0 (workers ld)
                 + totalSalary (driver ld))
       \<and> (noRounding rnd 0 (map totalSalary (workers ld) @ [totalSalary (driver ld)]) \<longrightarrow>
            totalLaborCost ld = sum_list (map totalSalary (workers ld)) + totalSalary (driver ld))"
proof -
  have rows: "\<forall>w\<in>set (workers ld). totalSalary w = rnd (real (daysPresent w) * dailySalary w)"
    using assms(1)
    by (auto simp: calculateLaborDetailsRounded_def Let_def split: option.splits)
  have drv: "totalSalary (driver ld) = rnd (real (daysPresent (driver ld)) * dailySalary (driver ld))"
    using assms
    by (auto simp: calculateLaborDetailsRounded_def Let_def split: option.splits)
  note total = roundedTotals [OF assms(1)]
  have exact: "totalLaborCost ld = sum_list (map totalSalary (workers ld)) + totalSalary (driver ld)"
    if "noRounding rnd 0 (map totalSalary (workers ld) @ [totalSalary (driver ld)])"
    unfolding total foldl_totals using noRounding_foldl [OF that] by simp
  from rows drv total exact show ?thesis by blast
qed

text \<open>
  With \<open>roundDouble\<close> on project 13 of the sample database: 150 and 50 for the
  workers, 200 for the driver, no addition rounds, and the total is 400.
\<close>

theorem labor_details_rounded_invariant_witness:
  "\<exists>ld. calculateLaborDetailsRounded roundDouble 99 13 sampleDb = Inr ld
     \<and> map totalSalary (workers ld) = [150, 50] \<and> totalSalary (driver ld) = 200
     \<and> noRounding roundDouble 0 (map totalSalary (workers ld) @ [totalSalary (driver ld)])
     \<and> totalLaborCost ld = sum_list (map totalSalary (workers ld)) + totalSalary (driver ld)
     \<and> totalLaborCost ld = 400"
proof -
  obtain ld where ld: "calculateLaborDetailsRounded roundDouble 99 13 sampleDb = Inr ld"
    by (simp add: sample_labor_double)
  then have vals: "map totalSalary (workers ld) = [150, 50]" "totalSalary (driver ld) = 200"
    by (auto simp: sample_labor_double)
  have nr: "noRounding roundDouble 0 (map totalSalary (workers ld) @ [totalSalary (driver ld)])"
    by (simp add: vals roundDouble_numeral)
  from labor_details_rounded_invariant [OF ld roundDouble_0] nr
  have "totalLaborCost ld = sum_list (map totalSalary (workers ld)) + totalSalary (driver ld)"
    by blast
  with ld vals nr show ?thesis
    by simp
qed

subsection \<open>Determinism\<close>

text \<open>
  Claim C9. The aggregation writes nothing, so a second call reads the same database;
  the only value that differs between two calls is the fresh ObjectId. Whatever the two
  fresh identifiers are, the two calls fail alike or return the same worker rows, the
  same driver \<open>daysPresent\<close>, \<open>dailySalary\<close> and \<open>totalSalary\<close>, and the same
  \<open>totalLaborCost\<close>.
\<close>

theorem labor_totals_deterministic:
  "map_sum id laborTotals (calculateLaborDetails fresh1 pid db)
     = map_sum id laborTotals (calculateLaborDetails fresh2 pid db)"
proof (cases "projects db pid")
  case None
  then show ?thesis
    by (simp add: calculateLaborDetails_def)
next
  case (Some p)
  obtain ld1 where ld1: "calculateLaborDetails fresh1 pid db = Inr ld1"
    using calc_Inr [OF Some] by blast
  obtain ld2 where ld2: "calculateLaborDetails fresh2 pid db = Inr ld2"
    using calc_Inr [OF Some] by blast
  have w: "workers ld1 = workers ld2"
    by (simp add: calc_workers [OF Some ld1] calc_workers [OF Some ld2])
  have d: "daysPresent (driver ld1) = daysPresent (driver ld2)
         \<and> dailySalary (driver ld1) = dailySalary (driver ld2)
         \<and> totalSalary (driver ld1) = totalSalary (driver ld2)"
    by (simp add: calc_driver [OF Some ld1] calc_driver [OF Some ld2] split: option.splits)
  have "totalLaborCost ld1 = totalLaborCost ld2"
    by (simp add: calc_total [OF ld1] calc_total [OF ld2] w d)
  with w d show ?thesis
    by (simp add: ld1 ld2 laborTotals_def)
qed

lemma sample_labor_no_driver:
  "calculateLaborDetails fresh 11 sampleDb =
     Inr \<lparr>workers = [],
          driver =
            \<lparr>laborUser = fresh, laborFirstName = [], laborLastName = [],
             laborProfileImage = None, daysPresent = 0, dailySalary = 0, totalSalary = 0\<rparr>,
          totalLaborCost = 0\<rparr>"
  by (simp add: calculateLaborDetails_def Let_def sampleDb_def populateUsers_def
      populateUser_def draftProject_def)

text \<open>
  Project 11 has no driver: two calls agree on all figures, and differ in the
  placeholder driver's \<open>user\<close>, which is the fresh identifier of each call.
\<close>

theorem labor_totals_deterministic_witness:
  "map_sum id laborTotals (calculateLaborDetails 100 11 sampleDb)
     = map_sum id laborTotals (calculateLaborDetails 200 11 sampleDb)
   \<and> laborUser (driver (projr (calculateLaborDetails 100 11 sampleDb))) = 100
   \<and> laborUser (driver (projr (calculateLaborDetails 200 11 sampleDb))) = 200"
  using labor_totals_deterministic [of 100 11 sampleDb 200]
  by (simp add: sample_labor_no_driver)


end
